theory Spec2Isabelle
  imports Main
begin

section \<open>Keymaps and commands\<close>

text \<open>
  The key-sequence interpreter of \<^verbatim>\<open>src/keybindings.ts\<close>: the lookup
  \<^verbatim>\<open>getFromKeymap\<close>, the digit test \<^verbatim>\<open>isNum\<close> and the class
  \<^verbatim>\<open>KeyEventHandler\<close> with its methods \<^verbatim>\<open>statusBarPrefix\<close>,
  \<^verbatim>\<open>setKeys\<close>, \<^verbatim>\<open>updateStatus\<close>, \<^verbatim>\<open>handle\<close> and \<^verbatim>\<open>reset\<close>.

  JavaScript strings are modelled as \<^typ>\<open>string\<close>; \<^verbatim>\<open>undefined\<close> is \<^term>\<open>None\<close>.
\<close>

text \<open>
  Modelled from the spec: the type \<^verbatim>\<open>Command\<close> is declared in \<^verbatim>\<open>actions.ts\<close>,
  which is not among the sources. The spec gives it three shapes: a bare host-command
  identifier, an ordered sequence of identifiers, and an object
  \<^verbatim>\<open>{ command, args?, when? }\<close>. The arguments of the third shape are arbitrary
  host data; they are kept as an opaque text.
\<close>

datatype command =
    Simple string
  | Sequence "string list"
  | Complex string "string option" "string option"

text \<open>
  \<^verbatim>\<open>type Keymap = { [key: string]: Keymap | Command }\<close>. A keymap is a list of
  bindings read with \<^const>\<open>map_of\<close>, so \<^verbatim>\<open>key in keymap\<close> is
  \<open>map_of keymap key \<noteq> None\<close> and \<^verbatim>\<open>keymap[key]\<close> is the value found. A bound
  value is tagged with the side of the union \<^verbatim>\<open>Keymap | Command\<close> on which the code
  uses it: \<open>Leaf\<close> for a value that \<^verbatim>\<open>isCommand\<close> accepts, \<open>Sub\<close> for any other.
  Properties inherited from the prototype of a JavaScript object are not part of a keymap.
\<close>

datatype entry =
    Leaf command
  | Sub "(string \<times> entry) list"

type_synonym keymap = "(string \<times> entry) list"

text \<open>
  Modelled from the spec: the guard \<^verbatim>\<open>isCommand\<close> is generated into
  \<^verbatim>\<open>actions.guard.ts\<close>, which is not among the sources. It tells the leaf of a
  keymap from a nested keymap.
\<close>

fun isCommand :: "entry \<Rightarrow> bool" where
  "isCommand (Leaf c) = True"
| "isCommand (Sub km) = False"

text \<open>
  The test \<^verbatim>\<open>if (value)\<close> on a value of type
  \<^verbatim>\<open>Keymap | Command | undefined\<close>: \<^verbatim>\<open>undefined\<close> and the empty string are
  falsy, every array and every object is truthy.
\<close>

fun truthy :: "entry option \<Rightarrow> bool" where
  "truthy None = False"
| "truthy (Some (Leaf (Simple s))) = (s \<noteq> [])"
| "truthy (Some (Leaf (Sequence cs))) = True"
| "truthy (Some (Leaf (Complex c a w))) = True"
| "truthy (Some (Sub km)) = True"

definition getFromKeymap :: "keymap option \<Rightarrow> string \<Rightarrow> entry option" where
  "getFromKeymap keymap key =
     (case keymap of
        None \<Rightarrow> None
      | Some km \<Rightarrow>
          if map_of km key \<noteq> None then map_of km key
          else if map_of km '''' \<noteq> None then map_of km ''''
          else None)"

text \<open>
  The regular expressions \<^verbatim>\<open>/^[1-9]$/\<close> and \<^verbatim>\<open>/^\d$/\<close> accept exactly the
  strings of one character in the range.
\<close>

definition isNum :: "string \<Rightarrow> bool \<Rightarrow> bool" where
  "isNum key isFirst =
     (case key of
        [c] \<Rightarrow> if isFirst then c \<in> set ''123456789'' else c \<in> set ''0123456789''
      | _ \<Rightarrow> False)"

section \<open>The key event handler\<close>

text \<open>
  The fields of \<^verbatim>\<open>KeyEventHandler\<close>. The constructor parameters \<open>keymap\<close>,
  \<open>commonKeymap\<close> and \<open>commandMode\<close> are public fields of the object;
  \<open>keyStatusBar\<close> holds the \<^verbatim>\<open>text\<close> of the status bar item.
\<close>

record handler =
  keyStatusBar :: string
  keymap :: "keymap option"
  commonKeymap :: "keymap option"
  commandMode :: bool
  currentKeymap :: "keymap option"
  currentCommonKeymap :: "keymap option"
  keys :: string
  count :: string
  parsingCount :: bool

datatype key_error = KeyError string

text \<open>
  What a call of \<^verbatim>\<open>handle\<close> yields: a thrown \<^verbatim>\<open>KeyError\<close> (\<open>Inl\<close>), no value
  (\<open>Inr None\<close>, the sequence is pending) or the object \<^verbatim>\<open>{ command, keys }\<close>.
  The handler is returned with it in every case, since it is mutated before a throw too.
\<close>

type_synonym outcome = "key_error + (command \<times> string) option"

definition statusBarPrefix :: "handler \<Rightarrow> string" where
  "statusBarPrefix h = (if commandMode h then '':'' else '''')"

definition updateStatus :: "handler \<Rightarrow> handler" where
  "updateStatus h = h\<lparr>keyStatusBar := statusBarPrefix h @ count h @ keys h\<rparr>"

definition setKeys :: "handler \<Rightarrow> string \<Rightarrow> handler" where
  "setKeys h ks = updateStatus (h\<lparr>keys := ks\<rparr>)"

definition reset :: "handler \<Rightarrow> handler" where
  "reset h =
     setKeys
       (h\<lparr>currentKeymap := keymap h,
          currentCommonKeymap := commonKeymap h,
          count := '''',
          parsingCount := True\<rparr>)
       ''''"

text \<open>The constructor stores its parameters and calls \<^verbatim>\<open>reset\<close>.\<close>

definition KeyEventHandler ::
    "string \<Rightarrow> keymap option \<Rightarrow> keymap option \<Rightarrow> bool \<Rightarrow> handler" where
  "KeyEventHandler bar km ckm cm =
     reset
       \<lparr>keyStatusBar = bar, keymap = km, commonKeymap = ckm, commandMode = cm,
        currentKeymap = None, currentCommonKeymap = None,
        keys = '''', count = '''', parsingCount = False\<rparr>"

definition undefinedCommand :: "string \<Rightarrow> key_error" where
  "undefinedCommand ks = KeyError (''undefined command: '' @ [CHR 0x22] @ ks @ [CHR 0x22])"

definition undefinedKeySequence :: "string \<Rightarrow> key_error" where
  "undefinedKeySequence ks =
     KeyError (''undefined key sequence: '' @ [CHR 0x22] @ ks @ [CHR 0x22])"

text \<open>
  \<^verbatim>\<open>handle(key)\<close>, in the order of the source: the count digit (lines 80 to 84);
  \<open>h1\<close> is the handler after \<^verbatim>\<open>this.parsingCount = false\<close> and
  \<^verbatim>\<open>this.setKeys(this.keys + key)\<close> (lines 86 and 87); command mode (lines 91 to
  110); the lookup in \<^verbatim>\<open>currentKeymap\<close> with the update of
  \<^verbatim>\<open>currentCommonKeymap\<close> (lines 114 to 139); the lookup in
  \<^verbatim>\<open>currentCommonKeymap\<close> alone (lines 142 to 158); the throw (lines 161 to 163).

  The narrowing of \<^verbatim>\<open>value\<close> by \<^verbatim>\<open>if (value)\<close> is the case distinction on
  \<open>if truthy value then value else None\<close>; the branches \<open>Some (Leaf c)\<close> and
  \<open>Some (Sub km)\<close> below it are the two results of \<^verbatim>\<open>isCommand(value)\<close>. In
  command mode the value is tested with \<^verbatim>\<open>isCommand\<close> only.
\<close>

definition handle :: "handler \<Rightarrow> string \<Rightarrow> outcome \<times> handler" where
  "handle h key =
     (if parsingCount h \<and> \<not> commandMode h \<and> isNum key (length (count h) = 0) then
        (Inr None, updateStatus (h\<lparr>count := count h @ key\<rparr>))
      else
        (let h1 = setKeys (h\<lparr>parsingCount := False\<rparr>) (keys h @ key) in
         if commandMode h1 then
           (if key \<noteq> [CHR 0x0A] then (Inr None, h1)
            else
              (let ks = take (length (keys h1) - 1) (keys h1) in
               (case (case keymap h1 of None \<Rightarrow> None | Some km \<Rightarrow> map_of km ks) of
                  Some (Leaf c) \<Rightarrow> (Inr (Some (c, ks)), reset h1)
                | Some (Sub km) \<Rightarrow> (Inl (undefinedCommand ks), reset h1)
                | None \<Rightarrow> (Inl (undefinedCommand ks), reset h1))))
         else
           (let value = getFromKeymap (currentKeymap h1) key in
            (case (if truthy value then value else None) of
               Some (Leaf c) \<Rightarrow> (Inr (Some (c, keys h1)), reset h1)
             | Some (Sub km) \<Rightarrow>
                 (let h2 = h1\<lparr>currentKeymap := Some km\<rparr>;
                      value = getFromKeymap (currentCommonKeymap h2) key
                  in (Inr None,
                      (case (if truthy value then value else None) of
                         Some (Leaf c) \<Rightarrow> h2
                       | Some (Sub ckm) \<Rightarrow> h2\<lparr>currentCommonKeymap := Some ckm\<rparr>
                       | None \<Rightarrow> h2\<lparr>currentCommonKeymap := None\<rparr>)))
             | None \<Rightarrow>
                 (let value = getFromKeymap (currentCommonKeymap h1) key in
                  (case (if truthy value then value else None) of
                     Some (Leaf c) \<Rightarrow> (Inr (Some (c, keys h1)), reset h1)
                   | Some (Sub ckm) \<Rightarrow>
                       (Inr None,
                        h1\<lparr>currentKeymap := None, currentCommonKeymap := Some ckm\<rparr>)
                   | None \<Rightarrow> (Inl (undefinedKeySequence (keys h1)), reset h1)))))))"

text \<open>
  Feeding a sequence of key events to the handler, one call of \<^verbatim>\<open>handle\<close> per key;
  a thrown error is recorded and the next key goes to the handler as the throw left it.
\<close>

fun run :: "handler \<Rightarrow> string list \<Rightarrow> outcome list \<times> handler" where
  "run h [] = ([], h)"
| "run h (key # rest) =
     (case handle h key of
        (r, h') \<Rightarrow> (case run h' rest of (rs, h'') \<Rightarrow> (r # rs, h'')))"

section \<open>The branches of \<open>handle\<close>\<close>

lemma not_truthy_iff:
  "\<not> truthy v \<longleftrightarrow> v = None \<or> v = Some (Leaf (Simple ''''))"
  by (cases v rule: truthy.cases) simp_all

lemma setKeys_fields:
  "setKeys h ks = h\<lparr>keys := ks, keyStatusBar := statusBarPrefix h @ count h @ ks\<rparr>"
  by (simp add: setKeys_def updateStatus_def statusBarPrefix_def)

lemma reset_fields:
  "reset h =
     \<lparr>keyStatusBar = (if commandMode h then '':'' else ''''),
      keymap = keymap h, commonKeymap = commonKeymap h, commandMode = commandMode h,
      currentKeymap = keymap h, currentCommonKeymap = commonKeymap h,
      keys = '''', count = '''', parsingCount = True\<rparr>"
  by (simp add: reset_def setKeys_def updateStatus_def statusBarPrefix_def)

lemma handle_count:
  assumes "parsingCount h" and "\<not> commandMode h" and "isNum key (count h = [])"
  shows "handle h key =
    (Inr None, h\<lparr>count := count h @ key, keyStatusBar := count h @ key @ keys h\<rparr>)"
  using assms by (simp add: handle_def updateStatus_def statusBarPrefix_def)

lemma handle_command_pending:
  assumes "commandMode h" and "key \<noteq> [CHR 0x0A]"
  shows "handle h key =
    (Inr None,
     h\<lparr>parsingCount := False, keys := keys h @ key,
       keyStatusBar := '':'' @ count h @ keys h @ key\<rparr>)"
  using assms by (simp add: handle_def Let_def setKeys_fields statusBarPrefix_def)

lemma handle_command_newline:
  assumes "commandMode h"
  shows "handle h [CHR 0x0A] =
    (case (case keymap h of None \<Rightarrow> None | Some km \<Rightarrow> map_of km (keys h)) of
       Some (Leaf c) \<Rightarrow> (Inr (Some (c, keys h)), reset h)
     | Some (Sub km) \<Rightarrow> (Inl (undefinedCommand (keys h)), reset h)
     | None \<Rightarrow> (Inl (undefinedCommand (keys h)), reset h))"
proof -
  let ?h1 = "setKeys (h\<lparr>parsingCount := False\<rparr>) (keys h @ [CHR 0x0A])"
  have r: "reset ?h1 = reset h"
    by (simp add: reset_fields setKeys_fields)
  have k: "take (length (keys ?h1) - 1) (keys ?h1) = keys h"
    by (simp add: setKeys_fields)
  have m: "keymap ?h1 = keymap h" and c: "commandMode ?h1"
    using assms by (simp_all add: setKeys_fields)
  have "handle h [CHR 0x0A] =
    (case (case keymap ?h1 of None \<Rightarrow> None
           | Some km \<Rightarrow> map_of km (take (length (keys ?h1) - 1) (keys ?h1))) of
       Some (Leaf c) \<Rightarrow> (Inr (Some (c, take (length (keys ?h1) - 1) (keys ?h1))), reset ?h1)
     | Some (Sub km) \<Rightarrow>
         (Inl (undefinedCommand (take (length (keys ?h1) - 1) (keys ?h1))), reset ?h1)
     | None \<Rightarrow> (Inl (undefinedCommand (take (length (keys ?h1) - 1) (keys ?h1))), reset ?h1))"
    using assms c unfolding handle_def Let_def by simp
  then show ?thesis
    unfolding r k m .
qed

lemma handle_keymap_command:
  assumes "\<not> commandMode h" and "\<not> (parsingCount h \<and> isNum key (count h = []))"
    and "getFromKeymap (currentKeymap h) key = Some (Leaf c)" and "truthy (Some (Leaf c))"
  shows "handle h key = (Inr (Some (c, keys h @ key)), reset h)"
  using assms
  by (cases "parsingCount h")
    (simp_all add: handle_def Let_def setKeys_fields reset_fields)

lemma handle_keymap_sub_sub:
  assumes "\<not> commandMode h" and "\<not> (parsingCount h \<and> isNum key (count h = []))"
    and "getFromKeymap (currentKeymap h) key = Some (Sub km)"
    and "getFromKeymap (currentCommonKeymap h) key = Some (Sub ckm)"
  shows "handle h key =
    (Inr None,
     h\<lparr>parsingCount := False, keys := keys h @ key,
       keyStatusBar := count h @ keys h @ key,
       currentKeymap := Some km, currentCommonKeymap := Some ckm\<rparr>)"
  using assms
  by (cases "parsingCount h")
    (simp_all add: handle_def Let_def setKeys_fields statusBarPrefix_def)

lemma handle_keymap_sub_command:
  assumes "\<not> commandMode h" and "\<not> (parsingCount h \<and> isNum key (count h = []))"
    and "getFromKeymap (currentKeymap h) key = Some (Sub km)"
    and "getFromKeymap (currentCommonKeymap h) key = Some (Leaf c)"
    and "truthy (Some (Leaf c))"
  shows "handle h key =
    (Inr None,
     h\<lparr>parsingCount := False, keys := keys h @ key,
       keyStatusBar := count h @ keys h @ key,
       currentKeymap := Some km\<rparr>)"
  using assms
  by (cases "parsingCount h")
    (simp_all add: handle_def Let_def setKeys_fields statusBarPrefix_def)

lemma handle_keymap_sub_none:
  assumes "\<not> commandMode h" and "\<not> (parsingCount h \<and> isNum key (count h = []))"
    and "getFromKeymap (currentKeymap h) key = Some (Sub km)"
    and "\<not> truthy (getFromKeymap (currentCommonKeymap h) key)"
  shows "handle h key =
    (Inr None,
     h\<lparr>parsingCount := False, keys := keys h @ key,
       keyStatusBar := count h @ keys h @ key,
       currentKeymap := Some km, currentCommonKeymap := None\<rparr>)"
  using assms
  by (cases "parsingCount h")
    (simp_all add: handle_def Let_def setKeys_fields statusBarPrefix_def)

lemma handle_common_command:
  assumes "\<not> commandMode h" and "\<not> (parsingCount h \<and> isNum key (count h = []))"
    and "\<not> truthy (getFromKeymap (currentKeymap h) key)"
    and "getFromKeymap (currentCommonKeymap h) key = Some (Leaf c)"
    and "truthy (Some (Leaf c))"
  shows "handle h key = (Inr (Some (c, keys h @ key)), reset h)"
  using assms
  by (cases "parsingCount h")
    (simp_all add: handle_def Let_def setKeys_fields reset_fields)

lemma handle_common_sub:
  assumes "\<not> commandMode h" and "\<not> (parsingCount h \<and> isNum key (count h = []))"
    and "\<not> truthy (getFromKeymap (currentKeymap h) key)"
    and "getFromKeymap (currentCommonKeymap h) key = Some (Sub ckm)"
  shows "handle h key =
    (Inr None,
     h\<lparr>parsingCount := False, keys := keys h @ key,
       keyStatusBar := count h @ keys h @ key,
       currentKeymap := None, currentCommonKeymap := Some ckm\<rparr>)"
  using assms
  by (cases "parsingCount h")
    (simp_all add: handle_def Let_def setKeys_fields statusBarPrefix_def)

lemma handle_undefined:
  assumes "\<not> commandMode h" and "\<not> (parsingCount h \<and> isNum key (count h = []))"
    and "\<not> truthy (getFromKeymap (currentKeymap h) key)"
    and "\<not> truthy (getFromKeymap (currentCommonKeymap h) key)"
  shows "handle h key = (Inl (undefinedKeySequence (keys h @ key)), reset h)"
  using assms
  by (cases "parsingCount h")
    (simp_all add: handle_def Let_def setKeys_fields reset_fields)

section \<open>What every call of \<open>handle\<close> does\<close>

lemma handle_shape:
  "(\<exists>h'. handle h key = (Inr None, h') \<and>
      keymap h' = keymap h \<and> commonKeymap h' = commonKeymap h \<and>
      commandMode h' = commandMode h \<and>
      keyStatusBar h' = statusBarPrefix h' @ count h' @ keys h' \<and>
      ((parsingCount h \<and> \<not> commandMode h \<and> isNum key (count h = [])) \<or>
       (\<not> parsingCount h' \<and> keys h' = keys h @ key \<and> count h' = count h))) \<or>
   (\<exists>c ks. handle h key = (Inr (Some (c, ks)), reset h)) \<or>
   (\<exists>e. handle h key = (Inl e, reset h))"
proof (cases "parsingCount h \<and> \<not> commandMode h \<and> isNum key (count h = [])")
  case True
  then show ?thesis
    by (simp add: handle_count statusBarPrefix_def)
next
  case seq: False
  show ?thesis
  proof (cases "commandMode h")
    case cmd: True
    show ?thesis
    proof (cases "key = [CHR 0x0A]")
      case True
      with cmd show ?thesis
        by (simp add: handle_command_newline split: option.split entry.split)
    next
      case False
      with cmd show ?thesis
        by (simp add: handle_command_pending statusBarPrefix_def)
    qed
  next
    case nocmd: False
    with seq have nocount: "\<not> (parsingCount h \<and> isNum key (count h = []))"
      by simp
    note branch = nocmd nocount
    show ?thesis
    proof (cases "getFromKeymap (currentKeymap h) key" rule: truthy.cases)
      case 1
      then have m: "\<not> truthy (getFromKeymap (currentKeymap h) key)"
        by simp
      show ?thesis
      proof (cases "getFromKeymap (currentCommonKeymap h) key" rule: truthy.cases)
        case 1
        with m branch show ?thesis by (simp add: handle_undefined)
      next
        case (2 s)
        with m branch show ?thesis
          by (cases "s = []") (simp_all add: handle_undefined handle_common_command)
      next
        case (3 cs)
        with m branch show ?thesis by (simp add: handle_common_command)
      next
        case (4 c a w)
        with m branch show ?thesis by (simp add: handle_common_command)
      next
        case (5 ckm)
        with m branch show ?thesis by (simp add: handle_common_sub statusBarPrefix_def)
      qed
    next
      case (2 s)
      show ?thesis
      proof (cases "s = []")
        case False
        with 2 branch show ?thesis by (simp add: handle_keymap_command)
      next
        case True
        with 2 have m: "\<not> truthy (getFromKeymap (currentKeymap h) key)"
          by simp
        show ?thesis
        proof (cases "getFromKeymap (currentCommonKeymap h) key" rule: truthy.cases)
          case 1
          with m branch show ?thesis by (simp add: handle_undefined)
        next
          case (2 s)
          with m branch show ?thesis
            by (cases "s = []") (simp_all add: handle_undefined handle_common_command)
        next
          case (3 cs)
          with m branch show ?thesis by (simp add: handle_common_command)
        next
          case (4 c a w)
          with m branch show ?thesis by (simp add: handle_common_command)
        next
          case (5 ckm)
          with m branch show ?thesis by (simp add: handle_common_sub statusBarPrefix_def)
        qed
      qed
    next
      case (3 cs)
      with branch show ?thesis by (simp add: handle_keymap_command)
    next
      case (4 c a w)
      with branch show ?thesis by (simp add: handle_keymap_command)
    next
      case (5 km)
      show ?thesis
      proof (cases "getFromKeymap (currentCommonKeymap h) key" rule: truthy.cases)
        case 1
        with 5 branch show ?thesis by (simp add: handle_keymap_sub_none statusBarPrefix_def)
      next
        case (2 s)
        with 5 branch show ?thesis
          by (cases "s = []")
            (simp_all add: handle_keymap_sub_none handle_keymap_sub_command statusBarPrefix_def)
      next
        case (3 cs)
        with 5 branch show ?thesis by (simp add: handle_keymap_sub_command statusBarPrefix_def)
      next
        case (4 c a w)
        with 5 branch show ?thesis by (simp add: handle_keymap_sub_command statusBarPrefix_def)
      next
        case (5 ckm)
        with \<open>getFromKeymap (currentKeymap h) key = Some (Sub km)\<close> branch show ?thesis
          by (simp add: handle_keymap_sub_sub statusBarPrefix_def)
      qed
    qed
  qed
qed

lemma handle_config:
  "keymap (snd (handle h key)) = keymap h \<and>
   commonKeymap (snd (handle h key)) = commonKeymap h \<and>
   commandMode (snd (handle h key)) = commandMode h"
  using handle_shape [of h key] by (auto simp: reset_fields)

lemma handle_terminal:
  assumes "fst (handle h key) \<noteq> Inr None"
  shows "snd (handle h key) = reset h"
  using handle_shape [of h key] assms by auto

lemma handle_sequence_pending:
  assumes "\<not> (parsingCount h \<and> \<not> commandMode h \<and> isNum key (count h = []))"
    and "fst (handle h key) = Inr None"
  shows "\<not> parsingCount (snd (handle h key)) \<and>
    keys (snd (handle h key)) = keys h @ key \<and> count (snd (handle h key)) = count h"
  using handle_shape [of h key] assms by auto

lemma handle_parsingCount_ended:
  assumes "\<not> (parsingCount h \<and> \<not> commandMode h \<and> isNum key (count h = []))"
  shows "handle h key = handle (h\<lparr>parsingCount := False\<rparr>) key"
  using assms
  by (cases "parsingCount h"; cases "commandMode h"; cases "isNum key (count h = [])")
    (simp_all add: handle_def)

lemma handle_status:
  "keyStatusBar (snd (handle h key)) =
     statusBarPrefix (snd (handle h key)) @ count (snd (handle h key)) @ keys (snd (handle h key))"
  using handle_shape [of h key] by (auto simp: reset_fields statusBarPrefix_def)

lemma run_config:
  "keymap (snd (run h ks)) = keymap h \<and>
   commonKeymap (snd (run h ks)) = commonKeymap h \<and>
   commandMode (snd (run h ks)) = commandMode h"
proof (induction ks arbitrary: h)
  case Nil
  show ?case by simp
next
  case (Cons key rest)
  obtain r h' where step: "handle h key = (r, h')"
    by (cases "handle h key")
  obtain rs h'' where tail: "run h' rest = (rs, h'')"
    by (cases "run h' rest")
  from Cons.IH [of h'] tail handle_config [of h key] step show ?case
    by simp
qed

text \<open>The equations that evaluate a call on a concrete handler.\<close>

lemmas handle_eval =
  handle_def Let_def setKeys_fields reset_fields updateStatus_def statusBarPrefix_def
  getFromKeymap_def isNum_def KeyEventHandler_def

section \<open>Keymap lookup\<close>

text \<open>
  Claim C4. \<open>getFromKeymap keymap key\<close> is the value bound to \<open>key\<close> when the keymap
  binds that exact key; otherwise the value bound to the wildcard key \<open>''''\<close> when the
  keymap binds it; otherwise it is undefined, as it is for an absent keymap. In a keymap
  that binds \<open>''a''\<close> and the wildcard, \<open>''a''\<close> yields its own binding and every other
  key yields the wildcard's. The lookup is a function of the keymap and the key alone: it
  neither reads nor changes a handler.
\<close>

theorem getFromKeymap_exact_then_wildcard:
  "getFromKeymap None key = None \<and>
   (map_of km key = Some v \<longrightarrow> getFromKeymap (Some km) key = Some v) \<and>
   (map_of km key = None \<and> map_of km '''' = Some w \<longrightarrow>
      getFromKeymap (Some km) key = Some w) \<and>
   (map_of km key = None \<and> map_of km '''' = None \<longrightarrow>
      getFromKeymap (Some km) key = None) \<and>
   getFromKeymap (Some [(''a'', x), ('''', w)]) ''a'' = Some x \<and>
   (key \<noteq> ''a'' \<longrightarrow> getFromKeymap (Some [(''a'', x), ('''', w)]) key = Some w)"
  by (simp add: getFromKeymap_def)

theorem getFromKeymap_exact_then_wildcard_witness:
  "map_of [(''a'', Leaf (Simple ''exact'')), ('''', Leaf (Simple ''any''))] ''a''
     = Some (Leaf (Simple ''exact'')) \<and>
   getFromKeymap (Some [(''a'', Leaf (Simple ''exact'')), ('''', Leaf (Simple ''any''))]) ''a''
     = Some (Leaf (Simple ''exact'')) \<and>
   map_of [(''a'', Leaf (Simple ''exact'')), ('''', Leaf (Simple ''any''))] ''b'' = None \<and>
   map_of [(''a'', Leaf (Simple ''exact'')), ('''', Leaf (Simple ''any''))] ''''
     = Some (Leaf (Simple ''any'')) \<and>
   ''b'' \<noteq> ''a'' \<and>
   getFromKeymap (Some [(''a'', Leaf (Simple ''exact'')), ('''', Leaf (Simple ''any''))]) ''b''
     = Some (Leaf (Simple ''any'')) \<and>
   map_of [(''a'', Leaf (Simple ''exact''))] ''b'' = None \<and>
   map_of [(''a'', Leaf (Simple ''exact''))] '''' = None \<and>
   getFromKeymap (Some [(''a'', Leaf (Simple ''exact''))]) ''b'' = None"
  using
    getFromKeymap_exact_then_wildcard
      [of "''a''" "[(''a'', Leaf (Simple ''exact'')), ('''', Leaf (Simple ''any''))]"
        "Leaf (Simple ''exact'')" "Leaf (Simple ''any'')" "Leaf (Simple ''exact'')"]
    getFromKeymap_exact_then_wildcard
      [of "''b''" "[(''a'', Leaf (Simple ''exact'')), ('''', Leaf (Simple ''any''))]"
        "Leaf (Simple ''exact'')" "Leaf (Simple ''any'')" "Leaf (Simple ''exact'')"]
    getFromKeymap_exact_then_wildcard
      [of "''b''" "[(''a'', Leaf (Simple ''exact''))]"
        "Leaf (Simple ''exact'')" "Leaf (Simple ''any'')" "Leaf (Simple ''exact'')"]
  by simp

section \<open>The count prefix\<close>

lemma isNum_digit:
  "isNum key isFirst \<longleftrightarrow>
     (\<exists>d. key = [d] \<and> d \<in> (if isFirst then set ''123456789'' else set ''0123456789''))"
  by (cases key rule: remdups_adj.cases) (simp_all add: isNum_def)

lemma count_then_key:
  assumes "map_of km key = Some (Leaf c)" and "c \<noteq> Simple ''''"
    and "\<not> isNum key False"
  shows "fst (run (KeyEventHandler bar (Some km) ckm False) [''1'', ''2'', key])
      = [Inr None, Inr None, Inr (Some (c, key))] \<and>
    count (snd (run (KeyEventHandler bar (Some km) ckm False) [''1'', ''2''])) = ''12'' \<and>
    keys (snd (run (KeyEventHandler bar (Some km) ckm False) [''1'', ''2''])) = '''' \<and>
    count (snd (run (KeyEventHandler bar (Some km) ckm False) [''1'', ''2'', key])) = ''''"
proof -
  let ?h0 = "KeyEventHandler bar (Some km) ckm False"
  let ?h1 = "?h0\<lparr>count := ''1'', keyStatusBar := ''1''\<rparr>"
  let ?h2 = "?h0\<lparr>count := ''12'', keyStatusBar := ''12''\<rparr>"
  have one: "handle ?h0 ''1'' = (Inr None, ?h1)"
    by (simp add: handle_count KeyEventHandler_def reset_fields isNum_def)
  have two: "handle ?h1 ''2'' = (Inr None, ?h2)"
    by (simp add: handle_count KeyEventHandler_def reset_fields isNum_def)
  have "truthy (Some (Leaf c))"
    using assms(2) by (cases c) simp_all
  then have three: "handle ?h2 key = (Inr (Some (c, key)), reset ?h2)"
    using assms(1,3)
    by (simp add: handle_keymap_command KeyEventHandler_def reset_fields getFromKeymap_def)
  show ?thesis
    by (simp add: one two three) (simp add: KeyEventHandler_def reset_fields)
qed

text \<open>
  Claim C3, as stated: from a fresh handler whose keymap binds \<open>j\<close> to a terminal
  command, the keys \<open>1\<close>, \<open>2\<close>, \<open>j\<close> resolve on \<open>j\<close> with \<open>count\<close> equal to
  \<open>12\<close>. This fails when the command is the empty string: the lookup of \<open>j\<close> is
  then taken as no binding and the call throws \<open>undefined key sequence\<close>. And where
  the call on \<open>j\<close> does resolve, it leaves \<open>count\<close> empty: the handler is reset
  before the command is returned.
\<close>

theorem handle_count_parsing_counterexample:
  "map_of [(''j'', Leaf (Simple ''''))] ''j'' = Some (Leaf (Simple '''')) \<and>
   isCommand (Leaf (Simple '''')) \<and>
   fst (run (KeyEventHandler '''' (Some [(''j'', Leaf (Simple ''''))]) None False)
          [''1'', ''2'', ''j''])
     = [Inr None, Inr None, Inl (undefinedKeySequence ''j'')] \<and>
   fst (run (KeyEventHandler '''' (Some [(''j'', Leaf (Simple ''''))]) None False)
          [''1'', ''2'', ''j''])
     \<noteq> [Inr None, Inr None, Inr (Some (Simple '''', ''j''))] \<and>
   fst (run (KeyEventHandler '''' (Some [(''j'', Leaf (Simple ''cursorDown''))]) None False)
          [''1'', ''2'', ''j''])
     = [Inr None, Inr None, Inr (Some (Simple ''cursorDown'', ''j''))] \<and>
   count (snd (run (KeyEventHandler '''' (Some [(''j'', Leaf (Simple ''cursorDown''))]) None False)
          [''1'', ''2'', ''j''])) = '''' \<and>
   count (snd (run (KeyEventHandler '''' (Some [(''j'', Leaf (Simple ''cursorDown''))]) None False)
          [''1'', ''2'', ''j''])) \<noteq> ''12''"
  by (simp add: handle_eval)

text \<open>
  Claim C3, amended. While \<open>parsingCount\<close> is true outside command mode, a key that is
  a digit valid at the current position (\<open>1\<close> to \<open>9\<close> when \<open>count\<close> is empty, \<open>0\<close>
  to \<open>9\<close> otherwise) is appended to \<open>count\<close>: the call returns no action and changes
  nothing else but the status text, so \<open>keys\<close> is untouched. Any other key, \<open>0\<close> on
  an empty \<open>count\<close> included, is handled exactly as with \<open>parsingCount\<close> false, in
  the same call; as long as the sequence stays pending \<open>parsingCount\<close> remains false,
  and later keys, digits too, go to \<open>keys\<close> and leave \<open>count\<close> alone. From a fresh
  handler whose keymap binds \<open>j\<close> to a command other than the empty string, the keys
  \<open>1\<close>, \<open>2\<close>, \<open>j\<close> give pending, pending and that command with the keys \<open>j\<close>;
  \<open>count\<close> is \<open>12\<close> when \<open>j\<close> arrives and empty again after the call on \<open>j\<close>,
  which resets the handler. A first key \<open>0\<close> is not a count digit: it is looked up in
  the keymap as a sequence key.
\<close>

theorem handle_count_parsing:
  assumes "parsingCount h" and "\<not> commandMode h"
  shows
    "(isNum key (count h = []) \<longleftrightarrow>
        (\<exists>d. key = [d] \<and>
           d \<in> (if count h = [] then set ''123456789'' else set ''0123456789''))) \<and>
     (isNum key (count h = []) \<longrightarrow>
        handle h key =
          (Inr None, h\<lparr>count := count h @ key, keyStatusBar := count h @ key @ keys h\<rparr>)) \<and>
     (\<not> isNum key (count h = []) \<longrightarrow>
        handle h key = handle (h\<lparr>parsingCount := False\<rparr>) key \<and>
        (fst (handle h key) = Inr None \<longrightarrow>
           \<not> parsingCount (snd (handle h key)) \<and>
           keys (snd (handle h key)) = keys h @ key \<and>
           count (snd (handle h key)) = count h)) \<and>
     (\<not> parsingCount g \<and> fst (handle g k) = Inr None \<longrightarrow>
        \<not> parsingCount (snd (handle g k)) \<and>
        keys (snd (handle g k)) = keys g @ k \<and>
        count (snd (handle g k)) = count g) \<and>
     (count h = [] \<longrightarrow> \<not> isNum ''0'' (count h = [])) \<and>
     (map_of km ''j'' = Some (Leaf c) \<and> c \<noteq> Simple '''' \<longrightarrow>
        fst (run (KeyEventHandler bar (Some km) ckm False) [''1'', ''2'', ''j''])
          = [Inr None, Inr None, Inr (Some (c, ''j''))] \<and>
        count (snd (run (KeyEventHandler bar (Some km) ckm False) [''1'', ''2''])) = ''12'' \<and>
        keys (snd (run (KeyEventHandler bar (Some km) ckm False) [''1'', ''2''])) = '''' \<and>
        count (snd (run (KeyEventHandler bar (Some km) ckm False) [''1'', ''2'', ''j''])) = '''') \<and>
     (map_of km ''0'' = Some (Leaf c) \<and> c \<noteq> Simple '''' \<longrightarrow>
        fst (handle (KeyEventHandler bar (Some km) ckm False) ''0'')
          = Inr (Some (c, ''0'')))"
proof -
  have digit: "isNum key (count h = []) \<longleftrightarrow>
      (\<exists>d. key = [d] \<and>
         d \<in> (if count h = [] then set ''123456789'' else set ''0123456789''))"
    by (rule isNum_digit)
  have counted: "handle h key =
      (Inr None, h\<lparr>count := count h @ key, keyStatusBar := count h @ key @ keys h\<rparr>)"
    if "isNum key (count h = [])"
    using assms that by (rule handle_count)
  have other: "handle h key = handle (h\<lparr>parsingCount := False\<rparr>) key \<and>
      (fst (handle h key) = Inr None \<longrightarrow>
         \<not> parsingCount (snd (handle h key)) \<and>
         keys (snd (handle h key)) = keys h @ key \<and>
         count (snd (handle h key)) = count h)"
    if "\<not> isNum key (count h = [])"
    using that handle_parsingCount_ended [of h key] handle_sequence_pending [of h key]
    by simp
  have later: "\<not> parsingCount (snd (handle g k)) \<and>
      keys (snd (handle g k)) = keys g @ k \<and> count (snd (handle g k)) = count g"
    if "\<not> parsingCount g" and "fst (handle g k) = Inr None"
    using that handle_sequence_pending [of g k] by simp
  have zero: "\<not> isNum ''0'' (count h = [])" if "count h = []"
    using that by (simp add: isNum_def)
  have j: "fst (run (KeyEventHandler bar (Some km) ckm False) [''1'', ''2'', ''j''])
        = [Inr None, Inr None, Inr (Some (c, ''j''))] \<and>
      count (snd (run (KeyEventHandler bar (Some km) ckm False) [''1'', ''2''])) = ''12'' \<and>
      keys (snd (run (KeyEventHandler bar (Some km) ckm False) [''1'', ''2''])) = '''' \<and>
      count (snd (run (KeyEventHandler bar (Some km) ckm False) [''1'', ''2'', ''j''])) = ''''"
    if "map_of km ''j'' = Some (Leaf c)" and "c \<noteq> Simple ''''"
    using that by (intro count_then_key) (simp_all add: isNum_def)
  have "truthy (Some (Leaf c))" if "c \<noteq> Simple ''''"
    using that by (cases c) simp_all
  then have literal: "fst (handle (KeyEventHandler bar (Some km) ckm False) ''0'')
      = Inr (Some (c, ''0''))"
    if "map_of km ''0'' = Some (Leaf c)" and "c \<noteq> Simple ''''"
    using that
    by (simp add: handle_keymap_command KeyEventHandler_def reset_fields getFromKeymap_def
        isNum_def)
  from digit counted other later zero j literal show ?thesis
    by blast
qed

theorem handle_count_parsing_witness:
  "parsingCount (KeyEventHandler ''''
      (Some [(''j'', Leaf (Simple ''cursorDown'')), (''0'', Leaf (Simple ''cursorHome'')),
             (''z'', Sub [(''2'', Sub [(''z'', Leaf (Simple ''center''))])])]) None False) \<and>
   \<not> commandMode (KeyEventHandler ''''
      (Some [(''j'', Leaf (Simple ''cursorDown'')), (''0'', Leaf (Simple ''cursorHome'')),
             (''z'', Sub [(''2'', Sub [(''z'', Leaf (Simple ''center''))])])]) None False) \<and>
   isNum ''1'' True \<and>
   handle (KeyEventHandler ''''
      (Some [(''j'', Leaf (Simple ''cursorDown'')), (''0'', Leaf (Simple ''cursorHome'')),
             (''z'', Sub [(''2'', Sub [(''z'', Leaf (Simple ''center''))])])]) None False) ''1''
     = (Inr None,
        (KeyEventHandler ''''
          (Some [(''j'', Leaf (Simple ''cursorDown'')), (''0'', Leaf (Simple ''cursorHome'')),
                 (''z'', Sub [(''2'', Sub [(''z'', Leaf (Simple ''center''))])])]) None False)
        \<lparr>count := ''1'', keyStatusBar := ''1''\<rparr>) \<and>
   \<not> isNum ''z'' True \<and> \<not> isNum ''0'' True \<and>
   fst (handle (KeyEventHandler ''''
      (Some [(''j'', Leaf (Simple ''cursorDown'')), (''0'', Leaf (Simple ''cursorHome'')),
             (''z'', Sub [(''2'', Sub [(''z'', Leaf (Simple ''center''))])])]) None False) ''z'')
     = Inr None \<and>
   \<not> parsingCount (snd (handle (KeyEventHandler ''''
      (Some [(''j'', Leaf (Simple ''cursorDown'')), (''0'', Leaf (Simple ''cursorHome'')),
             (''z'', Sub [(''2'', Sub [(''z'', Leaf (Simple ''center''))])])]) None False) ''z'')) \<and>
   fst (run (KeyEventHandler ''''
      (Some [(''j'', Leaf (Simple ''cursorDown'')), (''0'', Leaf (Simple ''cursorHome'')),
             (''z'', Sub [(''2'', Sub [(''z'', Leaf (Simple ''center''))])])]) None False)
      [''z'', ''2'']) = [Inr None, Inr None] \<and>
   keys (snd (run (KeyEventHandler ''''
      (Some [(''j'', Leaf (Simple ''cursorDown'')), (''0'', Leaf (Simple ''cursorHome'')),
             (''z'', Sub [(''2'', Sub [(''z'', Leaf (Simple ''center''))])])]) None False)
      [''z'', ''2''])) = ''z2'' \<and>
   count (snd (run (KeyEventHandler ''''
      (Some [(''j'', Leaf (Simple ''cursorDown'')), (''0'', Leaf (Simple ''cursorHome'')),
             (''z'', Sub [(''2'', Sub [(''z'', Leaf (Simple ''center''))])])]) None False)
      [''z'', ''2''])) = '''' \<and>
   fst (run (KeyEventHandler ''''
      (Some [(''j'', Leaf (Simple ''cursorDown'')), (''0'', Leaf (Simple ''cursorHome'')),
             (''z'', Sub [(''2'', Sub [(''z'', Leaf (Simple ''center''))])])]) None False)
      [''1'', ''2'', ''j''])
     = [Inr None, Inr None, Inr (Some (Simple ''cursorDown'', ''j''))] \<and>
   count (snd (run (KeyEventHandler ''''
      (Some [(''j'', Leaf (Simple ''cursorDown'')), (''0'', Leaf (Simple ''cursorHome'')),
             (''z'', Sub [(''2'', Sub [(''z'', Leaf (Simple ''center''))])])]) None False)
      [''1'', ''2''])) = ''12'' \<and>
   count (snd (run (KeyEventHandler ''''
      (Some [(''j'', Leaf (Simple ''cursorDown'')), (''0'', Leaf (Simple ''cursorHome'')),
             (''z'', Sub [(''2'', Sub [(''z'', Leaf (Simple ''center''))])])]) None False)
      [''1'', ''2'', ''j''])) = '''' \<and>
   fst (handle (KeyEventHandler ''''
      (Some [(''j'', Leaf (Simple ''cursorDown'')), (''0'', Leaf (Simple ''cursorHome'')),
             (''z'', Sub [(''2'', Sub [(''z'', Leaf (Simple ''center''))])])]) None False) ''0'')
     = Inr (Some (Simple ''cursorHome'', ''0''))"
proof -
  let ?km = "[(''j'', Leaf (Simple ''cursorDown'')), (''0'', Leaf (Simple ''cursorHome'')),
              (''z'', Sub [(''2'', Sub [(''z'', Leaf (Simple ''center''))])])]"
  let ?h = "KeyEventHandler '''' (Some ?km) None False"
  have start: "parsingCount ?h" "\<not> commandMode ?h"
    by (simp_all add: KeyEventHandler_def reset_fields)
  note digit =
    handle_count_parsing [OF start, where key = "''1''" and g = "snd (handle ?h ''z'')"
      and k = "''2''" and km = ?km and c = "Simple ''cursorDown''" and bar = "''''"
      and ckm = None]
  note other =
    handle_count_parsing [OF start, where key = "''z''" and g = "snd (handle ?h ''z'')"
      and k = "''2''" and km = ?km and c = "Simple ''cursorHome''" and bar = "''''"
      and ckm = None]
  show ?thesis
    using digit other by (simp add: handle_eval)
qed

section \<open>Command mode\<close>

text \<open>
  Claim C6. In command mode a key other than the newline is appended to \<open>keys\<close> and the
  call returns no action. On the newline the text typed before it is looked up, whole and
  without the wildcard, in the root keymap of the mode: when it is bound there to a
  command, the handler is reset and that command is returned with the text; in every
  other case (no keymap, no binding, a binding to a nested keymap) the handler is reset
  and the error \<open>undefined command\<close> with the text is thrown. With the keymap
  \<open>{wq: saveAndClose}\<close> the keys \<open>w\<close>, \<open>q\<close>, newline resolve to \<open>saveAndClose\<close> and
  the keys \<open>w\<close>, \<open>x\<close>, newline end in that error.
\<close>

theorem handle_command_mode:
  assumes "commandMode h"
  shows
    "(key \<noteq> [CHR 0x0A] \<longrightarrow>
        handle h key =
          (Inr None,
           h\<lparr>parsingCount := False, keys := keys h @ key,
             keyStatusBar := '':'' @ count h @ keys h @ key\<rparr>)) \<and>
     (keymap h = Some km \<and> map_of km (keys h) = Some v \<and> isCommand v \<longrightarrow>
        (\<exists>c. v = Leaf c \<and> handle h [CHR 0x0A] = (Inr (Some (c, keys h)), reset h))) \<and>
     (keymap h = None \<or>
      (keymap h = Some km \<and>
       (map_of km (keys h) = None \<or> (map_of km (keys h) = Some v \<and> \<not> isCommand v))) \<longrightarrow>
        handle h [CHR 0x0A] = (Inl (undefinedCommand (keys h)), reset h)) \<and>
     fst (run (KeyEventHandler bar (Some [(''wq'', Leaf (Simple ''saveAndClose''))]) ckm True)
            [''w'', ''q'', [CHR 0x0A]])
       = [Inr None, Inr None, Inr (Some (Simple ''saveAndClose'', ''wq''))] \<and>
     fst (run (KeyEventHandler bar (Some [(''wq'', Leaf (Simple ''saveAndClose''))]) ckm True)
            [''w'', ''x'', [CHR 0x0A]])
       = [Inr None, Inr None, Inl (undefinedCommand ''wx'')] \<and>
     snd (run (KeyEventHandler bar (Some [(''wq'', Leaf (Simple ''saveAndClose''))]) ckm True)
            [''w'', ''x'', [CHR 0x0A]])
       = KeyEventHandler bar (Some [(''wq'', Leaf (Simple ''saveAndClose''))]) ckm True"
proof -
  have pending: "handle h key =
      (Inr None,
       h\<lparr>parsingCount := False, keys := keys h @ key,
         keyStatusBar := '':'' @ count h @ keys h @ key\<rparr>)"
    if "key \<noteq> [CHR 0x0A]"
    using assms that by (rule handle_command_pending)
  have found: "\<exists>c. v = Leaf c \<and> handle h [CHR 0x0A] = (Inr (Some (c, keys h)), reset h)"
    if "keymap h = Some km" and "map_of km (keys h) = Some v" and "isCommand v"
    using assms that by (cases v) (simp_all add: handle_command_newline)
  have missing: "handle h [CHR 0x0A] = (Inl (undefinedCommand (keys h)), reset h)"
    if "keymap h = None \<or>
      (keymap h = Some km \<and>
       (map_of km (keys h) = None \<or> (map_of km (keys h) = Some v \<and> \<not> isCommand v)))"
    using assms that by (cases v) (auto simp: handle_command_newline)
  have wq: "fst (run (KeyEventHandler bar (Some [(''wq'', Leaf (Simple ''saveAndClose''))]) ckm True)
          [''w'', ''q'', [CHR 0x0A]])
      = [Inr None, Inr None, Inr (Some (Simple ''saveAndClose'', ''wq''))]"
    by (simp add: handle_eval)
  have wx: "fst (run (KeyEventHandler bar (Some [(''wq'', Leaf (Simple ''saveAndClose''))]) ckm True)
          [''w'', ''x'', [CHR 0x0A]])
      = [Inr None, Inr None, Inl (undefinedCommand ''wx'')]"
    by (simp add: handle_eval)
  have wx_reset:
    "snd (run (KeyEventHandler bar (Some [(''wq'', Leaf (Simple ''saveAndClose''))]) ckm True)
          [''w'', ''x'', [CHR 0x0A]])
      = KeyEventHandler bar (Some [(''wq'', Leaf (Simple ''saveAndClose''))]) ckm True"
    by (simp add: handle_eval)
  from pending found missing wq wx wx_reset show ?thesis
    by blast
qed

theorem handle_command_mode_witness:
  "commandMode (snd (run (KeyEventHandler ''''
      (Some [(''wq'', Leaf (Simple ''saveAndClose'')), (''s'', Sub [])]) None True) [''w''])) \<and>
   handle (snd (run (KeyEventHandler ''''
      (Some [(''wq'', Leaf (Simple ''saveAndClose'')), (''s'', Sub [])]) None True) [''w''])) ''q''
     = (Inr None,
        \<lparr>keyStatusBar = '':wq'',
         keymap = Some [(''wq'', Leaf (Simple ''saveAndClose'')), (''s'', Sub [])],
         commonKeymap = None, commandMode = True,
         currentKeymap = Some [(''wq'', Leaf (Simple ''saveAndClose'')), (''s'', Sub [])],
         currentCommonKeymap = None, keys = ''wq'', count = '''', parsingCount = False\<rparr>) \<and>
   map_of [(''wq'', Leaf (Simple ''saveAndClose'')), (''s'', Sub [])] ''wq''
     = Some (Leaf (Simple ''saveAndClose'')) \<and>
   isCommand (Leaf (Simple ''saveAndClose'')) \<and>
   handle (snd (run (KeyEventHandler ''''
      (Some [(''wq'', Leaf (Simple ''saveAndClose'')), (''s'', Sub [])]) None True)
      [''w'', ''q''])) [CHR 0x0A]
     = (Inr (Some (Simple ''saveAndClose'', ''wq'')),
        KeyEventHandler ''''
          (Some [(''wq'', Leaf (Simple ''saveAndClose'')), (''s'', Sub [])]) None True) \<and>
   map_of [(''wq'', Leaf (Simple ''saveAndClose'')), (''s'', Sub [])] ''s'' = Some (Sub []) \<and>
   \<not> isCommand (Sub []) \<and>
   handle (snd (run (KeyEventHandler ''''
      (Some [(''wq'', Leaf (Simple ''saveAndClose'')), (''s'', Sub [])]) None True)
      [''s''])) [CHR 0x0A]
     = (Inl (undefinedCommand ''s''),
        KeyEventHandler ''''
          (Some [(''wq'', Leaf (Simple ''saveAndClose'')), (''s'', Sub [])]) None True)"
proof -
  let ?km = "[(''wq'', Leaf (Simple ''saveAndClose'')), (''s'', Sub [])]"
  let ?h = "KeyEventHandler '''' (Some ?km) None True"
  have w: "commandMode (snd (run ?h [''w'']))"
    and wq: "commandMode (snd (run ?h [''w'', ''q'']))"
    and s: "commandMode (snd (run ?h [''s'']))"
    by (simp_all add: handle_eval)
  note pending =
    handle_command_mode [OF w, where key = "''q''" and km = ?km
      and v = "Leaf (Simple ''saveAndClose'')" and bar = "''''" and ckm = None]
  note found =
    handle_command_mode [OF wq, where key = "''q''" and km = ?km
      and v = "Leaf (Simple ''saveAndClose'')" and bar = "''''" and ckm = None]
  note missing =
    handle_command_mode [OF s, where key = "''q''" and km = ?km
      and v = "Sub []" and bar = "''''" and ckm = None]
  show ?thesis
    using pending found missing by (simp add: handle_eval)
qed

section \<open>The two cursors\<close>

text \<open>
  Claim C7. With the mode keymap \<open>{a: {b: cmd1}}\<close> and the common keymap
  \<open>{a: {c: cmd2}}\<close>, a fresh handler outside command mode answers the keys \<open>a\<close>,
  \<open>c\<close> with pending and then the command \<open>cmd2\<close>, and the keys \<open>a\<close>, \<open>b\<close> with
  pending and then the command \<open>cmd1\<close>. After \<open>a\<close> both cursors have descended.
\<close>

theorem common_keymap_fallback_divergence:
  "fst (run (KeyEventHandler bar
          (Some [(''a'', Sub [(''b'', Leaf (Simple ''cmd1''))])])
          (Some [(''a'', Sub [(''c'', Leaf (Simple ''cmd2''))])]) False) [''a'', ''c''])
     = [Inr None, Inr (Some (Simple ''cmd2'', ''ac''))] \<and>
   fst (run (KeyEventHandler bar
          (Some [(''a'', Sub [(''b'', Leaf (Simple ''cmd1''))])])
          (Some [(''a'', Sub [(''c'', Leaf (Simple ''cmd2''))])]) False) [''a'', ''b''])
     = [Inr None, Inr (Some (Simple ''cmd1'', ''ab''))] \<and>
   currentKeymap (snd (handle (KeyEventHandler bar
          (Some [(''a'', Sub [(''b'', Leaf (Simple ''cmd1''))])])
          (Some [(''a'', Sub [(''c'', Leaf (Simple ''cmd2''))])]) False) ''a''))
     = Some [(''b'', Leaf (Simple ''cmd1''))] \<and>
   currentCommonKeymap (snd (handle (KeyEventHandler bar
          (Some [(''a'', Sub [(''b'', Leaf (Simple ''cmd1''))])])
          (Some [(''a'', Sub [(''c'', Leaf (Simple ''cmd2''))])]) False) ''a''))
     = Some [(''c'', Leaf (Simple ''cmd2''))]"
  by (simp add: handle_eval)

text \<open>
  Claim C1, at a key that the mode keymap resolves to a nested keymap and the common
  keymap resolves to a command. With the mode keymap \<open>{a: {b: cmd1}}\<close> and the common
  keymap \<open>{a: cmdX, z: cmdZ}\<close>, the key \<open>a\<close> moves \<open>currentKeymap\<close> to \<open>{b: cmd1}\<close>
  and returns no action, but leaves \<open>currentCommonKeymap\<close> at the root of the common
  keymap instead of clearing it; the next key \<open>z\<close> is then resolved there, so the
  sequence \<open>az\<close> runs \<open>cmdZ\<close>.
\<close>

theorem handle_common_command_keeps_cursor:
  "getFromKeymap (currentKeymap (KeyEventHandler ''''
      (Some [(''a'', Sub [(''b'', Leaf (Simple ''cmd1''))])])
      (Some [(''a'', Leaf (Simple ''cmdX'')), (''z'', Leaf (Simple ''cmdZ''))]) False)) ''a''
     = Some (Sub [(''b'', Leaf (Simple ''cmd1''))]) \<and>
   getFromKeymap (currentCommonKeymap (KeyEventHandler ''''
      (Some [(''a'', Sub [(''b'', Leaf (Simple ''cmd1''))])])
      (Some [(''a'', Leaf (Simple ''cmdX'')), (''z'', Leaf (Simple ''cmdZ''))]) False)) ''a''
     = Some (Leaf (Simple ''cmdX'')) \<and>
   fst (handle (KeyEventHandler ''''
      (Some [(''a'', Sub [(''b'', Leaf (Simple ''cmd1''))])])
      (Some [(''a'', Leaf (Simple ''cmdX'')), (''z'', Leaf (Simple ''cmdZ''))]) False) ''a'')
     = Inr None \<and>
   currentKeymap (snd (handle (KeyEventHandler ''''
      (Some [(''a'', Sub [(''b'', Leaf (Simple ''cmd1''))])])
      (Some [(''a'', Leaf (Simple ''cmdX'')), (''z'', Leaf (Simple ''cmdZ''))]) False) ''a''))
     = Some [(''b'', Leaf (Simple ''cmd1''))] \<and>
   currentCommonKeymap (snd (handle (KeyEventHandler ''''
      (Some [(''a'', Sub [(''b'', Leaf (Simple ''cmd1''))])])
      (Some [(''a'', Leaf (Simple ''cmdX'')), (''z'', Leaf (Simple ''cmdZ''))]) False) ''a''))
     = Some [(''a'', Leaf (Simple ''cmdX'')), (''z'', Leaf (Simple ''cmdZ''))] \<and>
   currentCommonKeymap (snd (handle (KeyEventHandler ''''
      (Some [(''a'', Sub [(''b'', Leaf (Simple ''cmd1''))])])
      (Some [(''a'', Leaf (Simple ''cmdX'')), (''z'', Leaf (Simple ''cmdZ''))]) False) ''a''))
     \<noteq> None \<and>
   fst (run (KeyEventHandler ''''
      (Some [(''a'', Sub [(''b'', Leaf (Simple ''cmd1''))])])
      (Some [(''a'', Leaf (Simple ''cmdX'')), (''z'', Leaf (Simple ''cmdZ''))]) False)
      [''a'', ''z'']) = [Inr None, Inr (Some (Simple ''cmdZ'', ''az''))]"
  by (simp add: handle_eval)

section \<open>The common keymap as fallback\<close>

lemma truthy_command:
  "truthy (Some (Leaf c)) \<longleftrightarrow> c \<noteq> Simple ''''"
  by (cases c) simp_all

lemma handle_currentKeymap_unbound:
  assumes "\<not> commandMode h" and "\<not> (parsingCount h \<and> isNum key (count h = []))"
    and "\<not> truthy (getFromKeymap (currentKeymap h) key)"
  shows "handle h key = handle (h\<lparr>currentKeymap := None\<rparr>) key"
proof -
  let ?u = "h\<lparr>currentKeymap := None\<rparr>"
  have u: "\<not> commandMode ?u" "\<not> (parsingCount ?u \<and> isNum key (count ?u = []))"
    "\<not> truthy (getFromKeymap (currentKeymap ?u) key)"
    using assms(1,2) by (simp_all add: getFromKeymap_def)
  have r: "reset ?u = reset h"
    by (simp add: reset_fields)
  show ?thesis
  proof (cases "truthy (getFromKeymap (currentCommonKeymap h) key)")
    case False
    then have "\<not> truthy (getFromKeymap (currentCommonKeymap ?u) key)"
      by simp
    from handle_undefined [OF assms False] handle_undefined [OF u this] r
    show ?thesis by simp
  next
    case True
    then obtain v where v: "getFromKeymap (currentCommonKeymap h) key = Some v"
      by (cases "getFromKeymap (currentCommonKeymap h) key") simp_all
    show ?thesis
    proof (cases v)
      case (Leaf c)
      with v True have c: "getFromKeymap (currentCommonKeymap h) key = Some (Leaf c)"
        "truthy (Some (Leaf c))"
        by simp_all
      then have "getFromKeymap (currentCommonKeymap ?u) key = Some (Leaf c)"
        by simp
      from handle_common_command [OF assms c] handle_common_command [OF u this c(2)] r
      show ?thesis by simp
    next
      case (Sub ckm)
      with v have s: "getFromKeymap (currentCommonKeymap h) key = Some (Sub ckm)"
        by simp
      then have "getFromKeymap (currentCommonKeymap ?u) key = Some (Sub ckm)"
        by simp
      from handle_common_sub [OF assms s] handle_common_sub [OF u this]
      show ?thesis by simp
    qed
  qed
qed

text \<open>
  Claim C10. Outside command mode, a key that the lookup (exact or through the wildcard)
  resolves to the command that is the empty string is handled as an unbound key. When the
  cursor of the mode keymap yields it, the call does what it would do with that cursor
  undefined: it falls through to the common keymap, and a command found there is
  returned. When the mode cursor yields nothing usable and the cursor of the common
  keymap yields the empty string, the call resets and throws \<open>undefined key sequence\<close>
  instead of returning that command.
\<close>

theorem handle_empty_command_unbound:
  assumes "\<not> commandMode h" and "\<not> (parsingCount h \<and> isNum key (count h = []))"
  shows
    "\<not> truthy (Some (Leaf (Simple ''''))) \<and>
     (getFromKeymap (currentKeymap h) key = Some (Leaf (Simple '''')) \<longrightarrow>
        handle h key = handle (h\<lparr>currentKeymap := None\<rparr>) key) \<and>
     (getFromKeymap (currentKeymap h) key = Some (Leaf (Simple '''')) \<and>
      getFromKeymap (currentCommonKeymap h) key = Some (Leaf c) \<and> c \<noteq> Simple '''' \<longrightarrow>
        handle h key = (Inr (Some (c, keys h @ key)), reset h)) \<and>
     ((getFromKeymap (currentKeymap h) key = None \<or>
       getFromKeymap (currentKeymap h) key = Some (Leaf (Simple ''''))) \<and>
      getFromKeymap (currentCommonKeymap h) key = Some (Leaf (Simple '''')) \<longrightarrow>
        handle h key = (Inl (undefinedKeySequence (keys h @ key)), reset h))"
proof -
  have unbound: "handle h key = handle (h\<lparr>currentKeymap := None\<rparr>) key"
    if "getFromKeymap (currentKeymap h) key = Some (Leaf (Simple ''''))"
    using assms that by (intro handle_currentKeymap_unbound) simp_all
  have fallback: "handle h key = (Inr (Some (c, keys h @ key)), reset h)"
    if "getFromKeymap (currentKeymap h) key = Some (Leaf (Simple ''''))"
      and "getFromKeymap (currentCommonKeymap h) key = Some (Leaf c)" and "c \<noteq> Simple ''''"
    using assms that by (intro handle_common_command) (simp_all add: truthy_command)
  have fails: "handle h key = (Inl (undefinedKeySequence (keys h @ key)), reset h)"
    if "getFromKeymap (currentKeymap h) key = None \<or>
        getFromKeymap (currentKeymap h) key = Some (Leaf (Simple ''''))"
      and "getFromKeymap (currentCommonKeymap h) key = Some (Leaf (Simple ''''))"
    using assms that by (intro handle_undefined) auto
  from unbound fallback fails show ?thesis
    by simp
qed

theorem handle_empty_command_unbound_witness:
  "\<not> commandMode (KeyEventHandler ''''
      (Some [(''x'', Leaf (Simple '''')), ('''', Leaf (Simple ''''))])
      (Some [(''x'', Leaf (Simple ''cut'')), (''y'', Leaf (Simple ''''))]) False) \<and>
   \<not> isNum ''x'' True \<and> \<not> isNum ''y'' True \<and>
   getFromKeymap (currentKeymap (KeyEventHandler ''''
      (Some [(''x'', Leaf (Simple '''')), ('''', Leaf (Simple ''''))])
      (Some [(''x'', Leaf (Simple ''cut'')), (''y'', Leaf (Simple ''''))]) False)) ''x''
     = Some (Leaf (Simple '''')) \<and>
   getFromKeymap (currentCommonKeymap (KeyEventHandler ''''
      (Some [(''x'', Leaf (Simple '''')), ('''', Leaf (Simple ''''))])
      (Some [(''x'', Leaf (Simple ''cut'')), (''y'', Leaf (Simple ''''))]) False)) ''x''
     = Some (Leaf (Simple ''cut'')) \<and>
   handle (KeyEventHandler ''''
      (Some [(''x'', Leaf (Simple '''')), ('''', Leaf (Simple ''''))])
      (Some [(''x'', Leaf (Simple ''cut'')), (''y'', Leaf (Simple ''''))]) False) ''x''
     = (Inr (Some (Simple ''cut'', ''x'')),
        KeyEventHandler ''''
          (Some [(''x'', Leaf (Simple '''')), ('''', Leaf (Simple ''''))])
          (Some [(''x'', Leaf (Simple ''cut'')), (''y'', Leaf (Simple ''''))]) False) \<and>
   getFromKeymap (currentKeymap (KeyEventHandler ''''
      (Some [(''x'', Leaf (Simple '''')), ('''', Leaf (Simple ''''))])
      (Some [(''x'', Leaf (Simple ''cut'')), (''y'', Leaf (Simple ''''))]) False)) ''y''
     = Some (Leaf (Simple '''')) \<and>
   getFromKeymap (currentCommonKeymap (KeyEventHandler ''''
      (Some [(''x'', Leaf (Simple '''')), ('''', Leaf (Simple ''''))])
      (Some [(''x'', Leaf (Simple ''cut'')), (''y'', Leaf (Simple ''''))]) False)) ''y''
     = Some (Leaf (Simple '''')) \<and>
   handle (KeyEventHandler ''''
      (Some [(''x'', Leaf (Simple '''')), ('''', Leaf (Simple ''''))])
      (Some [(''x'', Leaf (Simple ''cut'')), (''y'', Leaf (Simple ''''))]) False) ''y''
     = (Inl (undefinedKeySequence ''y''),
        KeyEventHandler ''''
          (Some [(''x'', Leaf (Simple '''')), ('''', Leaf (Simple ''''))])
          (Some [(''x'', Leaf (Simple ''cut'')), (''y'', Leaf (Simple ''''))]) False) \<and>
   handle (KeyEventHandler ''''
      (Some [(''x'', Leaf (Simple '''')), ('''', Leaf (Simple ''''))])
      (Some [(''x'', Leaf (Simple ''cut'')), (''y'', Leaf (Simple ''''))]) False) ''y''
     = handle ((KeyEventHandler ''''
        (Some [(''x'', Leaf (Simple '''')), ('''', Leaf (Simple ''''))])
        (Some [(''x'', Leaf (Simple ''cut'')), (''y'', Leaf (Simple ''''))]) False)
        \<lparr>currentKeymap := None\<rparr>) ''y''"
proof -
  let ?h = "KeyEventHandler ''''
      (Some [(''x'', Leaf (Simple '''')), ('''', Leaf (Simple ''''))])
      (Some [(''x'', Leaf (Simple ''cut'')), (''y'', Leaf (Simple ''''))]) False"
  have mode: "\<not> commandMode ?h"
    by (simp add: KeyEventHandler_def reset_fields)
  have x: "\<not> (parsingCount ?h \<and> isNum ''x'' (count ?h = []))"
    and y: "\<not> (parsingCount ?h \<and> isNum ''y'' (count ?h = []))"
    by (simp_all add: isNum_def)
  note exact = handle_empty_command_unbound [OF mode x, where c = "Simple ''cut''"]
  note wildcard = handle_empty_command_unbound [OF mode y, where c = "Simple ''cut''"]
  show ?thesis
    using exact wildcard by (simp add: handle_eval)
qed

lemma handle_throws_iff:
  assumes "\<not> commandMode h" and "\<not> (parsingCount h \<and> isNum key (count h = []))"
  shows "(\<exists>e. fst (handle h key) = Inl e) \<longleftrightarrow>
    \<not> truthy (getFromKeymap (currentKeymap h) key) \<and>
    \<not> truthy (getFromKeymap (currentCommonKeymap h) key)"
proof (cases "truthy (getFromKeymap (currentKeymap h) key)")
  case mode: True
  then obtain v where v: "getFromKeymap (currentKeymap h) key = Some v"
    by (cases "getFromKeymap (currentKeymap h) key") simp_all
  show ?thesis
  proof (cases v)
    case (Leaf c)
    with v mode handle_keymap_command [OF assms, of c] show ?thesis
      by simp
  next
    case (Sub km)
    with v have s: "getFromKeymap (currentKeymap h) key = Some (Sub km)"
      by simp
    have "fst (handle h key) = Inr None"
    proof (cases "truthy (getFromKeymap (currentCommonKeymap h) key)")
      case False
      from handle_keymap_sub_none [OF assms s False] show ?thesis by simp
    next
      case True
      then obtain w where w: "getFromKeymap (currentCommonKeymap h) key = Some w"
        by (cases "getFromKeymap (currentCommonKeymap h) key") simp_all
      show ?thesis
      proof (cases w)
        case (Leaf c)
        with w True handle_keymap_sub_command [OF assms s, of c] show ?thesis
          by simp
      next
        case (Sub ckm)
        with w handle_keymap_sub_sub [OF assms s, of ckm] show ?thesis
          by simp
      qed
    qed
    with mode show ?thesis by simp
  qed
next
  case mode: False
  show ?thesis
  proof (cases "truthy (getFromKeymap (currentCommonKeymap h) key)")
    case False
    with mode handle_undefined [OF assms mode False] show ?thesis
      by simp
  next
    case True
    then obtain w where w: "getFromKeymap (currentCommonKeymap h) key = Some w"
      by (cases "getFromKeymap (currentCommonKeymap h) key") simp_all
    show ?thesis
    proof (cases w)
      case (Leaf c)
      with w True handle_common_command [OF assms mode, of c] show ?thesis
        by simp
    next
      case (Sub ckm)
      with w True handle_common_sub [OF assms mode, of ckm] show ?thesis
        by simp
    qed
  qed
qed

text \<open>
  Claim C5, as stated: outside command mode, when the key does not resolve in
  \<open>currentKeymap\<close> and the lookup in \<open>currentCommonKeymap\<close> yields a terminal command,
  that command is returned with the accumulated keys; and the call throws
  \<open>undefined key sequence\<close> if and only if neither cursor resolves the key. This fails
  for the command that is the empty string: bound in the common keymap, it is a terminal
  command that the lookup yields, and the call throws.
\<close>

theorem handle_common_fallback_counterexample:
  "\<not> commandMode (KeyEventHandler '''' (Some [(''y'', Leaf (Simple ''paste''))])
        (Some [(''x'', Leaf (Simple ''''))]) False) \<and>
   \<not> isNum ''x'' True \<and>
   getFromKeymap (currentKeymap (KeyEventHandler '''' (Some [(''y'', Leaf (Simple ''paste''))])
        (Some [(''x'', Leaf (Simple ''''))]) False)) ''x'' = None \<and>
   getFromKeymap (currentCommonKeymap (KeyEventHandler ''''
        (Some [(''y'', Leaf (Simple ''paste''))])
        (Some [(''x'', Leaf (Simple ''''))]) False)) ''x'' = Some (Leaf (Simple '''')) \<and>
   isCommand (Leaf (Simple '''')) \<and>
   fst (handle (KeyEventHandler '''' (Some [(''y'', Leaf (Simple ''paste''))])
        (Some [(''x'', Leaf (Simple ''''))]) False) ''x'') = Inl (undefinedKeySequence ''x'') \<and>
   fst (handle (KeyEventHandler '''' (Some [(''y'', Leaf (Simple ''paste''))])
        (Some [(''x'', Leaf (Simple ''''))]) False) ''x'') \<noteq> Inr (Some (Simple '''', ''x''))"
  by (simp add: handle_eval)

text \<open>
  Claim C5, amended. Outside command mode, for a key that is not taken as a count digit
  and for which the lookup in \<open>currentKeymap\<close> yields nothing or the empty-string
  command, the lookup is retried in \<open>currentCommonKeymap\<close> alone. A command other than
  the empty string found there is returned with the accumulated keys, after a reset; a
  nested keymap found there becomes \<open>currentCommonKeymap\<close> while \<open>currentKeymap\<close> is
  cleared, and the call returns no action. The call throws \<open>undefined key sequence\<close>
  with the accumulated keys, after a reset, if and only if each of the two lookups
  yields nothing or the empty-string command.
\<close>

theorem handle_common_fallback:
  assumes "\<not> commandMode h" and "\<not> (parsingCount h \<and> isNum key (count h = []))"
  shows
    "(\<not> truthy (getFromKeymap (currentKeymap h) key) \<and>
      getFromKeymap (currentCommonKeymap h) key = Some (Leaf c) \<and> c \<noteq> Simple '''' \<longrightarrow>
        handle h key = (Inr (Some (c, keys h @ key)), reset h)) \<and>
     (\<not> truthy (getFromKeymap (currentKeymap h) key) \<and>
      getFromKeymap (currentCommonKeymap h) key = Some (Sub ckm) \<longrightarrow>
        handle h key =
          (Inr None,
           h\<lparr>parsingCount := False, keys := keys h @ key,
             keyStatusBar := count h @ keys h @ key,
             currentKeymap := None, currentCommonKeymap := Some ckm\<rparr>)) \<and>
     (\<not> truthy (getFromKeymap (currentKeymap h) key) \<and>
      \<not> truthy (getFromKeymap (currentCommonKeymap h) key) \<longrightarrow>
        handle h key = (Inl (undefinedKeySequence (keys h @ key)), reset h)) \<and>
     ((\<exists>e. fst (handle h key) = Inl e) \<longleftrightarrow>
        \<not> truthy (getFromKeymap (currentKeymap h) key) \<and>
        \<not> truthy (getFromKeymap (currentCommonKeymap h) key)) \<and>
     (\<not> truthy v \<longleftrightarrow> v = None \<or> v = Some (Leaf (Simple '''')))"
proof -
  have command: "handle h key = (Inr (Some (c, keys h @ key)), reset h)"
    if "\<not> truthy (getFromKeymap (currentKeymap h) key)"
      and "getFromKeymap (currentCommonKeymap h) key = Some (Leaf c)" and "c \<noteq> Simple ''''"
    using assms that by (intro handle_common_command) (simp_all add: truthy_command)
  have sub: "handle h key =
      (Inr None,
       h\<lparr>parsingCount := False, keys := keys h @ key,
         keyStatusBar := count h @ keys h @ key,
         currentKeymap := None, currentCommonKeymap := Some ckm\<rparr>)"
    if "\<not> truthy (getFromKeymap (currentKeymap h) key)"
      and "getFromKeymap (currentCommonKeymap h) key = Some (Sub ckm)"
    using assms that by (rule handle_common_sub)
  have undefined: "handle h key = (Inl (undefinedKeySequence (keys h @ key)), reset h)"
    if "\<not> truthy (getFromKeymap (currentKeymap h) key)"
      and "\<not> truthy (getFromKeymap (currentCommonKeymap h) key)"
    using assms that by (rule handle_undefined)
  note throws = handle_throws_iff [OF assms]
  note falsy = not_truthy_iff [of v]
  from command sub undefined throws falsy show ?thesis
    by blast
qed

theorem handle_common_fallback_witness:
  "\<not> commandMode (KeyEventHandler '''' (Some [(''y'', Leaf (Simple ''paste''))])
      (Some [(''x'', Leaf (Simple ''cut'')), (''w'', Sub [(''h'', Leaf (Simple ''focusLeft''))]),
             (''e'', Leaf (Simple ''''))]) False) \<and>
   \<not> isNum ''x'' True \<and> \<not> isNum ''w'' True \<and> \<not> isNum ''e'' True \<and>
   \<not> truthy (getFromKeymap (currentKeymap (KeyEventHandler ''''
      (Some [(''y'', Leaf (Simple ''paste''))])
      (Some [(''x'', Leaf (Simple ''cut'')), (''w'', Sub [(''h'', Leaf (Simple ''focusLeft''))]),
             (''e'', Leaf (Simple ''''))]) False)) ''x'') \<and>
   handle (KeyEventHandler '''' (Some [(''y'', Leaf (Simple ''paste''))])
      (Some [(''x'', Leaf (Simple ''cut'')), (''w'', Sub [(''h'', Leaf (Simple ''focusLeft''))]),
             (''e'', Leaf (Simple ''''))]) False) ''x''
     = (Inr (Some (Simple ''cut'', ''x'')),
        KeyEventHandler '''' (Some [(''y'', Leaf (Simple ''paste''))])
          (Some [(''x'', Leaf (Simple ''cut'')),
                 (''w'', Sub [(''h'', Leaf (Simple ''focusLeft''))]),
                 (''e'', Leaf (Simple ''''))]) False) \<and>
   fst (handle (KeyEventHandler '''' (Some [(''y'', Leaf (Simple ''paste''))])
      (Some [(''x'', Leaf (Simple ''cut'')), (''w'', Sub [(''h'', Leaf (Simple ''focusLeft''))]),
             (''e'', Leaf (Simple ''''))]) False) ''w'') = Inr None \<and>
   currentKeymap (snd (handle (KeyEventHandler '''' (Some [(''y'', Leaf (Simple ''paste''))])
      (Some [(''x'', Leaf (Simple ''cut'')), (''w'', Sub [(''h'', Leaf (Simple ''focusLeft''))]),
             (''e'', Leaf (Simple ''''))]) False) ''w'')) = None \<and>
   currentCommonKeymap (snd (handle (KeyEventHandler ''''
      (Some [(''y'', Leaf (Simple ''paste''))])
      (Some [(''x'', Leaf (Simple ''cut'')), (''w'', Sub [(''h'', Leaf (Simple ''focusLeft''))]),
             (''e'', Leaf (Simple ''''))]) False) ''w''))
     = Some [(''h'', Leaf (Simple ''focusLeft''))] \<and>
   \<not> truthy (getFromKeymap (currentCommonKeymap (KeyEventHandler ''''
      (Some [(''y'', Leaf (Simple ''paste''))])
      (Some [(''x'', Leaf (Simple ''cut'')), (''w'', Sub [(''h'', Leaf (Simple ''focusLeft''))]),
             (''e'', Leaf (Simple ''''))]) False)) ''e'') \<and>
   handle (KeyEventHandler '''' (Some [(''y'', Leaf (Simple ''paste''))])
      (Some [(''x'', Leaf (Simple ''cut'')), (''w'', Sub [(''h'', Leaf (Simple ''focusLeft''))]),
             (''e'', Leaf (Simple ''''))]) False) ''e''
     = (Inl (undefinedKeySequence ''e''),
        KeyEventHandler '''' (Some [(''y'', Leaf (Simple ''paste''))])
          (Some [(''x'', Leaf (Simple ''cut'')),
                 (''w'', Sub [(''h'', Leaf (Simple ''focusLeft''))]),
                 (''e'', Leaf (Simple ''''))]) False)"
proof -
  let ?h = "KeyEventHandler '''' (Some [(''y'', Leaf (Simple ''paste''))])
      (Some [(''x'', Leaf (Simple ''cut'')), (''w'', Sub [(''h'', Leaf (Simple ''focusLeft''))]),
             (''e'', Leaf (Simple ''''))]) False"
  have mode: "\<not> commandMode ?h"
    by (simp add: KeyEventHandler_def reset_fields)
  have x: "\<not> (parsingCount ?h \<and> isNum ''x'' (count ?h = []))"
    and w: "\<not> (parsingCount ?h \<and> isNum ''w'' (count ?h = []))"
    and e: "\<not> (parsingCount ?h \<and> isNum ''e'' (count ?h = []))"
    by (simp_all add: isNum_def)
  note command =
    handle_common_fallback [OF mode x, where c = "Simple ''cut''"
      and ckm = "[(''h'', Leaf (Simple ''focusLeft''))]" and v = None]
  note sub =
    handle_common_fallback [OF mode w, where c = "Simple ''cut''"
      and ckm = "[(''h'', Leaf (Simple ''focusLeft''))]" and v = None]
  note undefined =
    handle_common_fallback [OF mode e, where c = "Simple ''cut''"
      and ckm = "[(''h'', Leaf (Simple ''focusLeft''))]" and v = None]
  show ?thesis
    using command sub undefined by (simp add: handle_eval)
qed

section \<open>Reset after a terminal resolution\<close>

text \<open>
  Claim C2. Whatever keys a handler has been fed since its construction, a call of
  \<open>handle\<close> that returns a resolved \<open>{command, keys}\<close> or throws (either error)
  leaves the handler in the freshly reset state: it is the state \<open>reset\<close> gives, the
  one the constructor gives for the same keymaps and mode, with \<open>currentKeymap\<close> and
  \<open>currentCommonKeymap\<close> at their roots, \<open>keys\<close> and \<open>count\<close> empty and
  \<open>parsingCount\<close> true. The state paired with a thrown error is already the reset one.
\<close>

theorem handle_terminal_resets:
  assumes "run (KeyEventHandler bar km ckm cm) history = (rs, h)"
    and "handle h key = (r, h')"
    and "r \<noteq> Inr None"
  shows "h' = reset h \<and> h' = KeyEventHandler bar' km ckm cm \<and>
    currentKeymap h' = km \<and> currentCommonKeymap h' = ckm \<and>
    keys h' = '''' \<and> count h' = '''' \<and> parsingCount h'"
proof -
  have "keymap h = km" and "commonKeymap h = ckm" and "commandMode h = cm"
    using run_config [of "KeyEventHandler bar km ckm cm" history] assms(1)
    by (simp_all add: KeyEventHandler_def reset_fields)
  moreover have "h' = reset h"
    using handle_terminal [of h key] assms(2,3) by simp
  ultimately show ?thesis
    by (simp add: KeyEventHandler_def reset_fields)
qed

theorem handle_terminal_resets_witness:
  "fst (handle (snd (run (KeyEventHandler ''old''
       (Some [(''g'', Sub [(''g'', Leaf (Simple ''cursorTop''))])]) None False)
       [''2'', ''g''])) ''g'') = Inr (Some (Simple ''cursorTop'', ''gg'')) \<and>
   snd (handle (snd (run (KeyEventHandler ''old''
       (Some [(''g'', Sub [(''g'', Leaf (Simple ''cursorTop''))])]) None False)
       [''2'', ''g''])) ''g'')
     = KeyEventHandler ''new''
         (Some [(''g'', Sub [(''g'', Leaf (Simple ''cursorTop''))])]) None False \<and>
   fst (handle (snd (run (KeyEventHandler ''old''
       (Some [(''g'', Sub [(''g'', Leaf (Simple ''cursorTop''))])]) None False)
       [''2'', ''g''])) ''x'') = Inl (undefinedKeySequence ''gx'') \<and>
   snd (handle (snd (run (KeyEventHandler ''old''
       (Some [(''g'', Sub [(''g'', Leaf (Simple ''cursorTop''))])]) None False)
       [''2'', ''g''])) ''x'')
     = KeyEventHandler ''new''
         (Some [(''g'', Sub [(''g'', Leaf (Simple ''cursorTop''))])]) None False \<and>
   fst (handle (snd (run (KeyEventHandler ''old''
       (Some [(''wq'', Leaf (Simple ''saveAndClose''))]) None True)
       [''w'', ''x''])) [CHR 0x0A]) = Inl (undefinedCommand ''wx'') \<and>
   snd (handle (snd (run (KeyEventHandler ''old''
       (Some [(''wq'', Leaf (Simple ''saveAndClose''))]) None True)
       [''w'', ''x''])) [CHR 0x0A])
     = KeyEventHandler ''new'' (Some [(''wq'', Leaf (Simple ''saveAndClose''))]) None True"
proof -
  let ?km = "Some [(''g'', Sub [(''g'', Leaf (Simple ''cursorTop''))])]"
  let ?h = "snd (run (KeyEventHandler ''old'' ?km None False) [''2'', ''g''])"
  let ?cm = "Some [(''wq'', Leaf (Simple ''saveAndClose''))]"
  let ?c = "snd (run (KeyEventHandler ''old'' ?cm None True) [''w'', ''x''])"
  have g: "fst (handle ?h ''g'') = Inr (Some (Simple ''cursorTop'', ''gg''))"
    by (simp add: handle_eval)
  have x: "fst (handle ?h ''x'') = Inl (undefinedKeySequence ''gx'')"
    by (simp add: handle_eval)
  have n: "fst (handle ?c [CHR 0x0A]) = Inl (undefinedCommand ''wx'')"
    by (simp add: handle_eval)
  have run_h: "run (KeyEventHandler ''old'' ?km None False) [''2'', ''g'']
      = (fst (run (KeyEventHandler ''old'' ?km None False) [''2'', ''g'']), ?h)"
    by (rule prod.collapse [symmetric])
  have run_c: "run (KeyEventHandler ''old'' ?cm None True) [''w'', ''x'']
      = (fst (run (KeyEventHandler ''old'' ?cm None True) [''w'', ''x'']), ?c)"
    by (rule prod.collapse [symmetric])
  have step: "handle s k = (fst (handle s k), snd (handle s k))" for s k
    by (rule prod.collapse [symmetric])
  have "fst (handle ?h ''g'') \<noteq> Inr None"
    unfolding g by simp
  from handle_terminal_resets [OF run_h step this, of "''new''"]
  have g': "snd (handle ?h ''g'') = KeyEventHandler ''new'' ?km None False"
    by blast
  have "fst (handle ?h ''x'') \<noteq> Inr None"
    unfolding x by simp
  from handle_terminal_resets [OF run_h step this, of "''new''"]
  have x': "snd (handle ?h ''x'') = KeyEventHandler ''new'' ?km None False"
    by blast
  have "fst (handle ?c [CHR 0x0A]) \<noteq> Inr None"
    unfolding n by simp
  from handle_terminal_resets [OF run_c step this, of "''new''"]
  have n': "snd (handle ?c [CHR 0x0A]) = KeyEventHandler ''new'' ?cm None True"
    by blast
  from g g' x x' n n' show ?thesis
    by blast
qed

section \<open>Determinism\<close>

text \<open>
  Claim C8. The outcomes of a key sequence fed to a freshly reset handler are determined
  by the mode keymap, the common keymap, the command-mode flag and the keys: two handlers
  that agree on these give, after \<open>reset\<close>, the same outcomes and the same final state,
  whatever their other fields held; the text of the status bar item given to the
  constructor does not matter; and resetting a handler after any earlier keys and
  feeding the sequence again repeats the first run.
\<close>

theorem handle_deterministic:
  assumes "keymap h1 = keymap h2" and "commonKeymap h1 = commonKeymap h2"
    and "commandMode h1 = commandMode h2"
  shows "run (reset h1) ks = run (reset h2) ks \<and>
    run (KeyEventHandler bar (keymap h1) (commonKeymap h1) (commandMode h1)) ks
      = run (KeyEventHandler bar' (keymap h2) (commonKeymap h2) (commandMode h2)) ks \<and>
    run (reset (snd (run (reset h1) history))) ks = run (reset h2) ks"
proof -
  have same: "reset h1 = reset h2"
    using assms by (simp add: reset_fields)
  have "reset (snd (run (reset h1) history)) = reset (reset h1)"
    using run_config [of "reset h1" history] by (simp add: reset_fields)
  also have "\<dots> = reset h1"
    by (simp add: reset_fields)
  finally have again: "reset (snd (run (reset h1) history)) = reset h2"
    using same by simp
  show ?thesis
    using assms same again by (simp add: KeyEventHandler_def reset_fields)
qed

theorem handle_deterministic_witness:
  "run (reset
      \<lparr>keyStatusBar = ''3d'', keymap = Some [(''g'', Sub [(''g'', Leaf (Simple ''cursorTop''))])],
       commonKeymap = None, commandMode = False, currentKeymap = None,
       currentCommonKeymap = None, keys = ''d'', count = ''3'', parsingCount = False\<rparr>)
      [''g'', ''g'', ''x'']
   = run (reset
      \<lparr>keyStatusBar = '''', keymap = Some [(''g'', Sub [(''g'', Leaf (Simple ''cursorTop''))])],
       commonKeymap = None, commandMode = False,
       currentKeymap = Some [(''g'', Leaf (Simple ''cursorTop''))],
       currentCommonKeymap = None, keys = ''g'', count = '''', parsingCount = False\<rparr>)
      [''g'', ''g'', ''x''] \<and>
   fst (run (reset
      \<lparr>keyStatusBar = ''3d'', keymap = Some [(''g'', Sub [(''g'', Leaf (Simple ''cursorTop''))])],
       commonKeymap = None, commandMode = False, currentKeymap = None,
       currentCommonKeymap = None, keys = ''d'', count = ''3'', parsingCount = False\<rparr>)
      [''g'', ''g'', ''x''])
   = [Inr None, Inr (Some (Simple ''cursorTop'', ''gg'')), Inl (undefinedKeySequence ''x'')]"
  using handle_deterministic
    [of "\<lparr>keyStatusBar = ''3d'',
          keymap = Some [(''g'', Sub [(''g'', Leaf (Simple ''cursorTop''))])],
          commonKeymap = None, commandMode = False, currentKeymap = None,
          currentCommonKeymap = None, keys = ''d'', count = ''3'', parsingCount = False\<rparr>"
        "\<lparr>keyStatusBar = '''',
          keymap = Some [(''g'', Sub [(''g'', Leaf (Simple ''cursorTop''))])],
          commonKeymap = None, commandMode = False,
          currentKeymap = Some [(''g'', Leaf (Simple ''cursorTop''))],
          currentCommonKeymap = None, keys = ''g'', count = '''', parsingCount = False\<rparr>"
        "[''g'', ''g'', ''x'']" "''''" "''''" "[]"]
  by (simp add: handle_eval)

section \<open>The status display\<close>

lemma handle_ignores_status:
  "handle (h\<lparr>keyStatusBar := t\<rparr>) key = handle h key"
  by (cases "parsingCount h"; cases "commandMode h"; cases "isNum key (count h = [])")
    (simp_all add: handle_def updateStatus_def setKeys_fields statusBarPrefix_def)

text \<open>
  Claim C9. After every call of \<open>handle\<close> the text of the status bar item is the prefix
  (\<open>'':''\<close> in command mode, empty otherwise) followed by \<open>count\<close> and \<open>keys\<close> as the
  call leaves them. A call that appends a count digit changes \<open>count\<close> and that text
  and nothing else; a call that appends a sequence key and stays pending has appended
  the key to \<open>keys\<close>, kept \<open>count\<close>, and shows both; a call that resolves or throws
  leaves the reset handler. Beyond its return value and the
  handler's own cursors and buffers, the text is all that \<open>handle\<close> writes: it never
  changes \<open>keymap\<close>, \<open>commonKeymap\<close> or \<open>commandMode\<close>, and it never reads the text,
  which it overwrites whatever it was. The display update \<open>updateStatus\<close> writes the
  text and no other field: putting the old text back gives the old handler.
\<close>

theorem handle_refreshes_status:
  "keyStatusBar (snd (handle h key)) =
     (if commandMode h then '':'' else '''') @
     count (snd (handle h key)) @ keys (snd (handle h key)) \<and>
   (parsingCount h \<and> \<not> commandMode h \<and> isNum key (count h = []) \<longrightarrow>
      handle h key =
        (Inr None, h\<lparr>count := count h @ key, keyStatusBar := count h @ key @ keys h\<rparr>)) \<and>
   (\<not> (parsingCount h \<and> \<not> commandMode h \<and> isNum key (count h = [])) \<and>
    fst (handle h key) = Inr None \<longrightarrow>
      keys (snd (handle h key)) = keys h @ key \<and>
      count (snd (handle h key)) = count h \<and>
      \<not> parsingCount (snd (handle h key)) \<and>
      keyStatusBar (snd (handle h key)) =
        (if commandMode h then '':'' else '''') @ count h @ keys h @ key) \<and>
   (fst (handle h key) \<noteq> Inr None \<longrightarrow> snd (handle h key) = reset h) \<and>
   keymap (snd (handle h key)) = keymap h \<and>
   commonKeymap (snd (handle h key)) = commonKeymap h \<and>
   commandMode (snd (handle h key)) = commandMode h \<and>
   handle (h\<lparr>keyStatusBar := t\<rparr>) key = handle h key \<and>
   keyStatusBar (updateStatus h) = (if commandMode h then '':'' else '''') @ count h @ keys h \<and>
   (updateStatus h)\<lparr>keyStatusBar := keyStatusBar h\<rparr> = h"
proof -
  note config = handle_config [of h key]
  then have shown: "keyStatusBar (snd (handle h key)) =
      (if commandMode h then '':'' else '''') @
      count (snd (handle h key)) @ keys (snd (handle h key))"
    using handle_status [of h key] by (simp add: statusBarPrefix_def)
  have digit: "handle h key =
      (Inr None, h\<lparr>count := count h @ key, keyStatusBar := count h @ key @ keys h\<rparr>)"
    if "parsingCount h \<and> \<not> commandMode h \<and> isNum key (count h = [])"
    using that by (simp add: handle_count)
  have appended: "keys (snd (handle h key)) = keys h @ key \<and>
      count (snd (handle h key)) = count h \<and>
      \<not> parsingCount (snd (handle h key)) \<and>
      keyStatusBar (snd (handle h key)) =
        (if commandMode h then '':'' else '''') @ count h @ keys h @ key"
    if "\<not> (parsingCount h \<and> \<not> commandMode h \<and> isNum key (count h = []))"
      and "fst (handle h key) = Inr None"
    using handle_sequence_pending [OF that] shown by simp
  have display: "keyStatusBar (updateStatus h) =
      (if commandMode h then '':'' else '''') @ count h @ keys h"
    "(updateStatus h)\<lparr>keyStatusBar := keyStatusBar h\<rparr> = h"
    by (simp_all add: updateStatus_def statusBarPrefix_def)
  have terminal: "snd (handle h key) = reset h" if "fst (handle h key) \<noteq> Inr None"
    using that by (rule handle_terminal)
  note unread = handle_ignores_status [where h = h and t = t and key = key]
  from shown digit appended terminal config unread display show ?thesis
    by blast
qed

theorem handle_refreshes_status_witness:
  "parsingCount (KeyEventHandler ''stale''
      (Some [(''g'', Sub [(''g'', Leaf (Simple ''cursorTop''))])]) None False) \<and>
   \<not> commandMode (KeyEventHandler ''stale''
      (Some [(''g'', Sub [(''g'', Leaf (Simple ''cursorTop''))])]) None False) \<and>
   isNum ''3'' True \<and>
   handle (KeyEventHandler ''stale''
      (Some [(''g'', Sub [(''g'', Leaf (Simple ''cursorTop''))])]) None False) ''3''
     = (Inr None,
        \<lparr>keyStatusBar = ''3'',
         keymap = Some [(''g'', Sub [(''g'', Leaf (Simple ''cursorTop''))])],
         commonKeymap = None, commandMode = False,
         currentKeymap = Some [(''g'', Sub [(''g'', Leaf (Simple ''cursorTop''))])],
         currentCommonKeymap = None, keys = '''', count = ''3'', parsingCount = True\<rparr>) \<and>
   \<not> isNum ''g'' False \<and>
   handle (snd (handle (KeyEventHandler ''stale''
      (Some [(''g'', Sub [(''g'', Leaf (Simple ''cursorTop''))])]) None False) ''3'')) ''g''
     = (Inr None,
        \<lparr>keyStatusBar = ''3g'',
         keymap = Some [(''g'', Sub [(''g'', Leaf (Simple ''cursorTop''))])],
         commonKeymap = None, commandMode = False,
         currentKeymap = Some [(''g'', Leaf (Simple ''cursorTop''))],
         currentCommonKeymap = None, keys = ''g'', count = ''3'', parsingCount = False\<rparr>) \<and>
   handle (snd (run (KeyEventHandler ''stale''
      (Some [(''g'', Sub [(''g'', Leaf (Simple ''cursorTop''))])]) None False)
      [''3'', ''g''])) ''g''
     = (Inr (Some (Simple ''cursorTop'', ''gg'')),
        \<lparr>keyStatusBar = '''',
         keymap = Some [(''g'', Sub [(''g'', Leaf (Simple ''cursorTop''))])],
         commonKeymap = None, commandMode = False,
         currentKeymap = Some [(''g'', Sub [(''g'', Leaf (Simple ''cursorTop''))])],
         currentCommonKeymap = None, keys = '''', count = '''', parsingCount = True\<rparr>)"
  using
    handle_refreshes_status
      [of "snd (run (KeyEventHandler ''stale''
          (Some [(''g'', Sub [(''g'', Leaf (Simple ''cursorTop''))])]) None False)
          [''3'', ''g''])" "''g''" "''other''"]
    handle_refreshes_status
      [of "KeyEventHandler ''stale''
          (Some [(''g'', Sub [(''g'', Leaf (Simple ''cursorTop''))])]) None False" "''3''"
        "''other''"]
    handle_refreshes_status
      [of "snd (handle (KeyEventHandler ''stale''
          (Some [(''g'', Sub [(''g'', Leaf (Simple ''cursorTop''))])]) None False) ''3'')"
        "''g''" "''other''"]
  by (simp add: handle_eval)

end
